theory Spec2Isabelle
  imports Main
begin

section \<open>JavaScript values\<close>

text \<open>
  The parameters of a query, the bodies of a transaction and the trailing arguments of
  \<^verbatim>\<open>multiquery\<close> are typed \<^verbatim>\<open>any\<close>. They are the values below; numbers are
  integers, an object is the list of its own properties.
\<close>

datatype js_val =
  JUndefined
| JNull
| JBool bool
| JNum int
| JStr string
| JArr "js_val list"
| JObj "(string \<times> js_val) list"

text \<open>An \<^verbatim>\<open>Error\<close> object, with its \<^verbatim>\<open>message\<close>.\<close>

datatype js_error = Error (message: string)

text \<open>A promise is pending or settled; once settled, \<^verbatim>\<open>resolve\<close> and \<^verbatim>\<open>reject\<close>
  change nothing.\<close>

datatype 'a promise = Pending | Fulfilled 'a | Rejected js_error

definition resolve :: "'a \<Rightarrow> 'a promise \<Rightarrow> 'a promise" where
  "resolve v p = (case p of Pending \<Rightarrow> Fulfilled v | _ \<Rightarrow> p)"

definition reject :: "js_error \<Rightarrow> 'a promise \<Rightarrow> 'a promise" where
  "reject e p = (case p of Pending \<Rightarrow> Rejected e | _ \<Rightarrow> p)"

text \<open>The conversion of a condition to a boolean (\<^verbatim>\<open>params ? .. : ..\<close>, \<^verbatim>\<open>if (saveSuccess)\<close>).\<close>

fun truthy :: "js_val \<Rightarrow> bool" where
  "truthy JUndefined = False"
| "truthy JNull = False"
| "truthy (JBool b) = b"
| "truthy (JNum n) = (n \<noteq> 0)"
| "truthy (JStr s) = (s \<noteq> [])"
| "truthy (JArr xs) = True"
| "truthy (JObj ps) = True"

text \<open>\<^verbatim>\<open>a ?? b\<close>: the right operand when the left one is \<^verbatim>\<open>null\<close> or \<^verbatim>\<open>undefined\<close>.\<close>

fun nullish_or :: "js_val \<Rightarrow> js_val \<Rightarrow> js_val" where
  "nullish_or JUndefined d = d"
| "nullish_or JNull d = d"
| "nullish_or v d = v"

text \<open>\<^verbatim>\<open>xs[i]\<close> on an array: \<^verbatim>\<open>undefined\<close> out of range.\<close>

definition index :: "js_val list \<Rightarrow> nat \<Rightarrow> js_val" where
  "index xs i = (if i < length xs then xs ! i else JUndefined)"

text \<open>\<^verbatim>\<open>xs.at(-1)\<close>: the last element, \<^verbatim>\<open>undefined\<close> on the empty array.\<close>

definition at_last :: "js_val list \<Rightarrow> js_val" where
  "at_last xs = (if xs = [] then JUndefined else last xs)"

text \<open>The decimal digits of a number, as a template literal prints a length or a count.\<close>

definition digit :: "nat \<Rightarrow> char" where
  "digit d = ''0123456789'' ! d"

function dec :: "nat \<Rightarrow> string" where
  "dec n = (if n < 10 then [digit n] else dec (n div 10) @ [digit (n mod 10)])"
  by pat_completeness auto
termination
  by (relation "measure id") auto

declare dec.simps [simp del]

text \<open>
  \<^verbatim>\<open>v[i]\<close> on any value that is not \<^verbatim>\<open>null\<close> or \<^verbatim>\<open>undefined\<close> (the code reads
  \<^verbatim>\<open>params[i]\<close> only when \<^verbatim>\<open>params\<close> is truthy): an element of an array, a character of a
  string, the property of an object whose key is the decimal index, and \<^verbatim>\<open>undefined\<close> on a
  boolean or a number.
\<close>

fun index_val :: "js_val \<Rightarrow> nat \<Rightarrow> js_val" where
  "index_val (JArr xs) i = index xs i"
| "index_val (JStr s) i = (if i < length s then JStr [s ! i] else JUndefined)"
| "index_val (JObj ps) i = (case map_of ps (dec i) of Some v \<Rightarrow> v | None \<Rightarrow> JUndefined)"
| "index_val v i = JUndefined"

section \<open>The connection and the console\<close>

text \<open>
  A statement as the driver receives it: the text and the arguments between the text and
  the callback.
\<close>

type_synonym stmt = "string \<times> js_val list"

text \<open>
  \<^verbatim>\<open>pg.QueryResult\<close>: \<^verbatim>\<open>command\<close> is \<open>None\<close> when it is \<^verbatim>\<open>undefined\<close>, \<^verbatim>\<open>rows\<close> is
  \<open>None\<close> when it is missing (\<^verbatim>\<open>!res.rows\<close>); \<open>to_excel\<close> tells whether the export hook
  has been attached.
\<close>

record 'r query_result =
  command :: "string option"
  rows :: "'r list option"
  rowCount :: "nat option"
  to_excel :: bool

text \<open>
  The \<^verbatim>\<open>pg\<close> client is not part of the repository. It is a parameter: its answer to a
  statement, given the statements it has received before on this connection, is an
  error or a result. The driver is taken to answer every statement.
\<close>

type_synonym 'r driver = "stmt list \<Rightarrow> stmt \<Rightarrow> js_error + 'r query_result"

datatype color = White | Green | Yellow | Red | Blue

fun colors :: "color \<Rightarrow> string" where
  "colors White = CHR 0x1B # ''[37m''"
| "colors Green = CHR 0x1B # ''[32m''"
| "colors Yellow = CHR 0x1B # ''[33m''"
| "colors Red = CHR 0x1B # ''[31m''"
| "colors Blue = CHR 0x1B # ''[34m''"

text \<open>
  What a call can change outside itself: the statements handed to the driver, oldest
  first, and the lines printed on the console (the escape code and the message; the
  clock reading that prefixes the message is left out).
\<close>

record world =
  sent :: "stmt list"
  console :: "(string \<times> string) list"

text \<open>The instance: its client and its \<^verbatim>\<open>#log\<close> flag.\<close>

record 'r pg_ninja =
  client :: "'r driver"
  log :: bool

definition send_log :: "'r pg_ninja \<Rightarrow> string \<Rightarrow> color \<Rightarrow> world \<Rightarrow> world" where
  "send_log this msg c w =
     (if log this then w\<lparr>console := console w @ [(colors c, msg)]\<rparr> else w)"

text \<open>Handing one statement to the driver: it is recorded and answered.\<close>

definition dispatch :: "'r pg_ninja \<Rightarrow> stmt \<Rightarrow> world \<Rightarrow> (js_error + 'r query_result) \<times> world" where
  "dispatch this s w = (client this (sent w) s, w\<lparr>sent := sent w @ [s]\<rparr>)"

text \<open>\<^verbatim>\<open>this.#client.query(text)\<close> without a callback, awaited.\<close>

definition client_query :: "'r pg_ninja \<Rightarrow> string \<Rightarrow> world \<Rightarrow> (js_error + 'r query_result) \<times> world" where
  "client_query this q w = dispatch this (q, []) w"

section \<open>query\<close>

text \<open>A result whose command is \<^verbatim>\<open>SELECT\<close> gets the export hook.\<close>

definition attach_to_excel :: "'r query_result \<Rightarrow> 'r query_result" where
  "attach_to_excel res = (if command res = Some ''SELECT'' then res\<lparr>to_excel := True\<rparr> else res)"

text \<open>The callback of \<^verbatim>\<open>query\<close>, run when the driver answers.\<close>

definition query_callback ::
  "'r pg_ninja \<Rightarrow> string \<Rightarrow> js_error + 'r query_result \<Rightarrow> world \<Rightarrow> (js_error + 'r query_result) \<times> world" where
  "query_callback this q a w =
     (case a of
        Inl err \<Rightarrow> (Inl err, send_log this (''error with query: '' @ q) Yellow w)
      | Inr res \<Rightarrow>
          (Inr (attach_to_excel res),
           send_log this (''success query: '' @ q) Blue w))"

definition query ::
  "'r pg_ninja \<Rightarrow> string \<Rightarrow> js_val list \<Rightarrow> world \<Rightarrow> (js_error + 'r query_result) \<times> world" where
  "query this q args w =
     (case dispatch this (q, args) w of (a, w1) \<Rightarrow> query_callback this q a w1)"

section \<open>transaction\<close>

text \<open>
  The outcome of a call: the state of the promise it returned, the world it left, and the
  error of an executor that threw outside its own \<^verbatim>\<open>try\<close> (nobody handles it, and the
  promise stays as it was).
\<close>

record 'a outcome =
  promise :: "'a promise"
  world_after :: world
  unhandled :: "js_error option"

text \<open>\<^verbatim>\<open>queries.map((x, i) => [x, bodies[i]])\<close>\<close>

definition tx_query_args :: "string list \<Rightarrow> js_val list \<Rightarrow> (string \<times> js_val) list" where
  "tx_query_args queries bodies = map (\<lambda>(i, x). (x, index bodies i)) (enumerate 0 queries)"

text \<open>
  The \<^verbatim>\<open>for\<close> loop over \<^verbatim>\<open>queryArgs\<close>, from the current position on. \<open>n\<close> is
  \<^verbatim>\<open>queries.length\<close>, \<open>r\<close> the variable \<^verbatim>\<open>r\<close> (\<open>None\<close> while unassigned), \<open>p\<close> the
  promise. \<open>Inl e\<close> is an exception that leaves the loop.
\<close>

fun tx_loop ::
  "'r pg_ninja \<Rightarrow> nat \<Rightarrow> (string \<times> js_val) list \<Rightarrow> 'r query_result option \<Rightarrow> world \<Rightarrow>
   'r query_result option promise \<Rightarrow>
   (js_error + 'r query_result option) \<times> world \<times> 'r query_result option promise" where
  "tx_loop this n [] r w p = (Inr r, w, p)"
| "tx_loop this n (qa # rest) r w p =
     (case query this (fst qa) [snd qa] w of
        (Inl e, w1) \<Rightarrow> (Inl e, w1, p)
      | (Inr res, w1) \<Rightarrow>
          if command res = None then
            (case client_query this ''ROLLBACK''
                    (send_log this (''failed transaction of '' @ dec n @ '' queries'') Yellow w1) of
               (Inl e, w2) \<Rightarrow> (Inl e, w2, p)
             | (Inr _, w2) \<Rightarrow>
                 tx_loop this n rest (Some res) w2 (reject (Error ''Transaction failed'') p))
          else tx_loop this n rest (Some res) w1 p)"

text \<open>The body of the \<^verbatim>\<open>try\<close>: \<open>Some e\<close> is the exception it throws.\<close>

definition tx_try ::
  "'r pg_ninja \<Rightarrow> string list \<Rightarrow> js_val list \<Rightarrow> world \<Rightarrow> 'r query_result option promise \<Rightarrow>
   js_error option \<times> world \<times> 'r query_result option promise" where
  "tx_try this queries bodies w p =
     (case client_query this ''BEGIN'' w of
        (Inl e, w1) \<Rightarrow> (Some e, w1, p)
      | (Inr _, w1) \<Rightarrow>
          (case tx_loop this (length queries) (tx_query_args queries bodies) None w1 p of
             (Inl e, w2, p2) \<Rightarrow> (Some e, w2, p2)
           | (Inr r, w2, p2) \<Rightarrow>
               (case client_query this ''COMMIT'' w2 of
                  (Inl e, w3) \<Rightarrow> (Some e, w3, p2)
                | (Inr _, w3) \<Rightarrow>
                    (None,
                     send_log this (''success transaction of '' @ dec (length queries) @ '' queries'') Blue w3,
                     resolve r p2))))"

definition transaction ::
  "'r pg_ninja \<Rightarrow> string list \<Rightarrow> js_val list \<Rightarrow> world \<Rightarrow> 'r query_result option outcome" where
  "transaction this queries bodies w =
     (case tx_try this queries bodies w Pending of
        (None, w1, p) \<Rightarrow> \<lparr>promise = p, world_after = w1, unhandled = None\<rparr>
      | (Some e, w1, p) \<Rightarrow>
          (case client_query this ''ROLLBACK''
                  (send_log this
                     (''fatal error with transaction of '' @ dec (length queries) @ '' queries: '' @ message e)
                     Red w1) of
             (Inl e2, w2) \<Rightarrow> \<lparr>promise = p, world_after = w2, unhandled = Some e2\<rparr>
           | (Inr _, w2) \<Rightarrow> \<lparr>promise = reject e p, world_after = w2, unhandled = None\<rparr>))"

section \<open>multiquery\<close>

text \<open>The report \<^verbatim>\<open>resp\<close>; its three lists are objects keyed by the index of the query.\<close>

record 'r resp =
  completed :: nat
  completed_of :: nat
  success_query_list :: "nat \<rightharpoonup> 'r list"
  failed_query_list :: "nat \<rightharpoonup> string \<times> js_val"
  error_list :: "nat \<rightharpoonup> js_error"
  fatal_error :: "js_error option"
  operation_time :: int
  success :: bool

text \<open>\<^verbatim>\<open>const saveSuccess = args.at(-1) ?? false\<close>\<close>

definition save_success :: "js_val list \<Rightarrow> js_val" where
  "save_success args = nullish_or (at_last args) (JBool False)"

text \<open>\<^verbatim>\<open>const queryArgs = params ? qrs.map((x, i) => [x[0], params[i]]) : qrs\<close>, with
  \<^verbatim>\<open>params = args[0]\<close>.\<close>

definition mq_query_args :: "(string \<times> js_val) list \<Rightarrow> js_val list \<Rightarrow> (string \<times> js_val) list" where
  "mq_query_args qrs args =
     (let params = index args 0 in
      if truthy params then map (\<lambda>(i, x). (fst x, index_val params i)) (enumerate 0 qrs)
      else qrs)"

text \<open>
  \<^verbatim>\<open>queryArgs.map(async ..)\<close> runs every item up to its \<^verbatim>\<open>await\<close>: the statements reach
  the driver in the order of the list, before any answer is handled.
\<close>

fun dispatch_all ::
  "'r pg_ninja \<Rightarrow> (string \<times> js_val) list \<Rightarrow> world \<Rightarrow> (js_error + 'r query_result) list \<times> world" where
  "dispatch_all this [] w = ([], w)"
| "dispatch_all this (qa # rest) w =
     (case dispatch this (fst qa, [snd qa]) w of
        (a, w1) \<Rightarrow> (case dispatch_all this rest w1 of (as, w2) \<Rightarrow> (a # as, w2)))"

text \<open>
  The rest of item \<open>i\<close>, run when its answer \<open>a\<close> arrives. The first component is how the
  item's own promise settles: the whole body is inside \<^verbatim>\<open>try\<close> and the handler throws
  nothing, so it is always fulfilled.
\<close>

definition item_settled ::
  "'r pg_ninja \<Rightarrow> js_val \<Rightarrow> nat \<Rightarrow> string \<times> js_val \<Rightarrow> js_error + 'r query_result \<Rightarrow> 'r resp \<Rightarrow> world \<Rightarrow>
   (js_error + unit) \<times> 'r resp \<times> world" where
  "item_settled this saveSuccess i queryArg a resp w =
     (case query_callback this (fst queryArg) a w of
        (Inr res, w1) \<Rightarrow>
          if rows res = None \<or> rows res = Some [] then
            (Inr (),
             resp\<lparr>failed_query_list := (failed_query_list resp)(i \<mapsto> queryArg),
                  error_list := (error_list resp)(i \<mapsto> Error ''Query returned no rows'')\<rparr>,
             w1)
          else
            (Inr (),
             (let resp1 = resp\<lparr>completed := completed resp + 1\<rparr> in
              if truthy saveSuccess
              then resp1\<lparr>success_query_list :=
                           (success_query_list resp1)(i := rows res)\<rparr>
              else resp1),
             w1)
      | (Inl error, w1) \<Rightarrow>
          (Inr (),
           resp\<lparr>failed_query_list := (failed_query_list resp)(i \<mapsto> queryArg),
                error_list := (error_list resp)(i \<mapsto> error),
                success := False\<rparr>,
           w1))"

text \<open>
  The answers arrive in an order the code does not control: \<open>ord\<close> lists the indices of
  the items in the order in which their answers are handled. An index that names no item
  is skipped. The outcomes of the items' promises are collected in that order.
\<close>

fun settle_all ::
  "'r pg_ninja \<Rightarrow> js_val \<Rightarrow> (string \<times> js_val) list \<Rightarrow> (js_error + 'r query_result) list \<Rightarrow> nat list \<Rightarrow>
   (js_error + unit) list \<Rightarrow> 'r resp \<Rightarrow> world \<Rightarrow> (js_error + unit) list \<times> 'r resp \<times> world" where
  "settle_all this sv qas as [] outs resp w = (outs, resp, w)"
| "settle_all this sv qas as (i # ord) outs resp w =
     (if i < length qas \<and> i < length as then
        (case item_settled this sv i (qas ! i) (as ! i) resp w of
           (out, resp1, w1) \<Rightarrow> settle_all this sv qas as ord (outs @ [out]) resp1 w1)
      else settle_all this sv qas as ord outs resp w)"

text \<open>Every item's answer is handled exactly once.\<close>

definition settle_order :: "nat \<Rightarrow> nat list \<Rightarrow> bool" where
  "settle_order n ord = (sort ord = [0..<n])"

text \<open>\<^verbatim>\<open>Promise.all\<close>: rejected with the first rejection, fulfilled when there is none.\<close>

fun promise_all :: "(js_error + unit) list \<Rightarrow> js_error + unit" where
  "promise_all [] = Inr ()"
| "promise_all (Inl e # outs) = Inl e"
| "promise_all (Inr u # outs) = promise_all outs"

text \<open>
  The executor of the promise that \<^verbatim>\<open>multiquery\<close> returns, applied to the report as the
  items left it. \<open>t0\<close> and \<open>t1\<close> are the two readings of the clock.
\<close>

definition mq_join ::
  "'r pg_ninja \<Rightarrow> nat \<Rightarrow> (js_error + unit) list \<Rightarrow> int \<Rightarrow> int \<Rightarrow> 'r resp \<Rightarrow> world \<Rightarrow> 'r resp outcome" where
  "mq_join this n outs t0 t1 resp w =
     (case promise_all outs of
        Inr u \<Rightarrow>
          (let resp1 = resp\<lparr>operation_time := t1 - t0\<rparr> in
           \<lparr>promise = resolve resp1 Pending,
            world_after =
              send_log this
                (''new '' @ dec (completed resp1) @ ''/'' @ dec (completed_of resp1) @ '' multi-query'')
                White w,
            unhandled = None\<rparr>)
      | Inl e \<Rightarrow>
          (let resp1 = resp\<lparr>fatal_error := Some e, success := False\<rparr> in
           \<lparr>promise = resolve resp1 Pending,
            world_after =
              send_log this
                (''fatal error of '' @ dec n @ '' queries multi-query: '' @ message e)
                Red w,
            unhandled = None\<rparr>))"

definition multiquery ::
  "'r pg_ninja \<Rightarrow> (string \<times> js_val) list \<Rightarrow> js_val list \<Rightarrow> nat list \<Rightarrow> int \<Rightarrow> int \<Rightarrow> world \<Rightarrow>
   'r resp outcome" where
  "multiquery this qrs args ord t0 t1 w =
     (let saveSuccess = save_success args;
          queryArgs = mq_query_args qrs args;
          resp = \<lparr>completed = 0, completed_of = length qrs, success_query_list = Map.empty,
                  failed_query_list = Map.empty, error_list = Map.empty, fatal_error = None,
                  operation_time = 0, success = True\<rparr>
      in case dispatch_all this queryArgs w of
           (as, w1) \<Rightarrow>
             (case settle_all this saveSuccess queryArgs as ord [] resp w1 of
                (outs, resp1, w2) \<Rightarrow> mq_join this (length qrs) outs t0 t1 resp1 w2))"

section \<open>Runs of the connection\<close>

text \<open>
  The answers of the driver to a run of statements, handed over one after the other on
  a connection that has already received \<open>h\<close>.
\<close>

fun answers :: "'r driver \<Rightarrow> stmt list \<Rightarrow> stmt list \<Rightarrow> (js_error + 'r query_result) list" where
  "answers drv h [] = []"
| "answers drv h (s # ss) = drv h s # answers drv (h @ [s]) ss"

text \<open>The statement that \<^verbatim>\<open>this.query(queryArg[0], queryArg[1])\<close> hands to the driver.\<close>

definition stmt_of :: "string \<times> js_val \<Rightarrow> stmt" where
  "stmt_of qa = (fst qa, [snd qa])"

text \<open>The statements of a transaction in which nothing goes wrong.\<close>

definition tx_statements :: "string list \<Rightarrow> js_val list \<Rightarrow> stmt list" where
  "tx_statements queries bodies =
     (''BEGIN'', []) # map stmt_of (tx_query_args queries bodies) @ [(''COMMIT'', [])]"

text \<open>An answer that counts as completed in a batch: a result with at least one row.\<close>

definition productive :: "js_error + 'r query_result \<Rightarrow> bool" where
  "productive a = (case a of Inl e \<Rightarrow> False | Inr res \<Rightarrow> rows res \<noteq> None \<and> rows res \<noteq> Some [])"

text \<open>The error that a batch records for an answer that is not productive.\<close>

definition error_of :: "js_error + 'r query_result \<Rightarrow> js_error" where
  "error_of a = (case a of Inl e \<Rightarrow> e | Inr res \<Rightarrow> Error ''Query returned no rows'')"

text \<open>The value a call resolved with, if it did.\<close>

definition report :: "'a outcome \<Rightarrow> 'a option" where
  "report out = (case promise out of Fulfilled r \<Rightarrow> Some r | _ \<Rightarrow> None)"

section \<open>Concrete connections\<close>

definition w0 :: world where
  "w0 = \<lparr>sent = [], console = []\<rparr>"

text \<open>
  A driver that answers the statements whose text is in the table as the table says, and
  every other statement with one row.
\<close>

definition scripted :: "(string \<times> (js_error + nat query_result)) list \<Rightarrow> nat driver" where
  "scripted tbl h s =
     (case map_of tbl (fst s) of
        Some a \<Rightarrow> a
      | None \<Rightarrow>
          Inr \<lparr>command = Some ''SELECT'', rows = Some [length h], rowCount = Some 1,
               to_excel = False\<rparr>)"

definition no_rows :: "js_error + nat query_result" where
  "no_rows = Inr \<lparr>command = Some ''SELECT'', rows = Some [], rowCount = Some 0, to_excel = False\<rparr>"

definition tagless :: "js_error + nat query_result" where
  "tagless = Inr \<lparr>command = None, rows = Some [], rowCount = None, to_excel = False\<rparr>"

definition ninja :: "(string \<times> (js_error + nat query_result)) list \<Rightarrow> bool \<Rightarrow> nat pg_ninja" where
  "ninja tbl lg = \<lparr>client = scripted tbl, log = lg\<rparr>"

text \<open>
  Three queries sent as one batch with no trailing argument; the second is answered with
  no rows, the answers are handled in the order of the queries.
\<close>

definition scenario3 :: "nat resp outcome" where
  "scenario3 =
     multiquery (ninja [(''Q2'', no_rows)] True)
       [(''Q1'', JArr []), (''Q2'', JArr []), (''Q3'', JArr [])] [] [0, 1, 2] 100 130 w0"

section \<open>Basic facts\<close>

lemma answers_append: "answers drv h (xs @ ys) = answers drv h xs @ answers drv (h @ xs) ys"
  by (induction xs arbitrary: h) auto

lemma length_answers [simp]: "length (answers drv h xs) = length xs"
  by (induction xs arbitrary: h) auto

lemma sent_send_log [simp]: "sent (send_log this m c w) = sent w"
  by (simp add: send_log_def)

lemma command_attach_to_excel [simp]: "command (attach_to_excel res) = command res"
  by (simp add: attach_to_excel_def)

lemma rows_attach_to_excel [simp]: "rows (attach_to_excel res) = rows res"
  by (simp add: attach_to_excel_def)

lemma query_ok:
  "client this (sent w) (q, args) = Inr res \<Longrightarrow>
   \<exists>w1. query this q args w = (Inr (attach_to_excel res), w1) \<and> sent w1 = sent w @ [(q, args)]"
  by (simp add: query_def dispatch_def query_callback_def)

lemmas tx_defs =
  transaction_def tx_try_def tx_query_args_def client_query_def dispatch_def query_def
  query_callback_def attach_to_excel_def send_log_def index_def reject_def resolve_def
  ninja_def scripted_def tagless_def no_rows_def w0_def

section \<open>transaction: the loop when every step succeeds\<close>

lemma tx_loop_ok:
  "answers (client this) (sent w) (map stmt_of qas) = map Inr rs \<Longrightarrow>
   \<forall>res\<in>set rs. command res \<noteq> None \<Longrightarrow>
   \<exists>w1. tx_loop this n qas r w p =
          (Inr (if qas = [] then r else Some (attach_to_excel (last rs))), w1, p)
       \<and> sent w1 = sent w @ map stmt_of qas"
proof (induction qas arbitrary: r w rs)
  case Nil
  then show ?case by simp
next
  case (Cons qa qas)
  from Cons.prems(1) obtain res rs' where rs: "rs = res # rs'"
    and a1: "client this (sent w) (stmt_of qa) = Inr res"
    and a2: "answers (client this) (sent w @ [stmt_of qa]) (map stmt_of qas) = map Inr rs'"
    by (cases rs) auto
  from a1 obtain w1 where q: "query this (fst qa) [snd qa] w = (Inr (attach_to_excel res), w1)"
    and s1: "sent w1 = sent w @ [stmt_of qa]"
    using query_ok [of this w "fst qa" "[snd qa]" res] by (auto simp: stmt_of_def)
  from Cons.prems(2) rs have c: "command res \<noteq> None"
    and c': "\<forall>res\<in>set rs'. command res \<noteq> None"
    by auto
  from a2 s1 have a2': "answers (client this) (sent w1) (map stmt_of qas) = map Inr rs'"
    by simp
  from Cons.IH [OF a2' c', of "Some (attach_to_excel res)"] obtain w2 where
    l: "tx_loop this n qas (Some (attach_to_excel res)) w1 p =
          (Inr (if qas = [] then Some (attach_to_excel res)
                else Some (attach_to_excel (last rs'))), w2, p)"
    and s2: "sent w2 = sent w1 @ map stmt_of qas"
    by blast
  have len: "length rs' = length qas"
    using arg_cong [OF a2, of length] by simp
  have "tx_loop this n (qa # qas) r w p = (Inr (Some (attach_to_excel (last rs))), w2, p)"
    using q c l len rs by (cases qas) auto
  with s1 s2 show ?case by auto
qed

section \<open>transaction: the claims\<close>

text \<open>
  C1. The claim: when a step's result has no command tag, ROLLBACK is issued, the call
  rejects with "Transaction failed", and none of the remaining queries runs after the
  rollback. The code has no exit from the loop after \<^verbatim>\<open>reject\<close>: on the request
  \<open>[A, B]\<close> where the answer to \<open>A\<close> has no command tag, ROLLBACK is issued and the call
  is rejected with "Transaction failed", but \<open>B\<close> is still sent after the ROLLBACK, and
  COMMIT after it.
\<close>

theorem transaction_runs_on_after_rollback:
  "sent (world_after (transaction (ninja [(''A'', tagless)] True) [''A'', ''B''] [] w0)) =
     [(''BEGIN'', []), (''A'', [JUndefined]), (''ROLLBACK'', []), (''B'', [JUndefined]),
      (''COMMIT'', [])]
   \<and> promise (transaction (ninja [(''A'', tagless)] True) [''A'', ''B''] [] w0) =
       Rejected (Error ''Transaction failed'')"
  by (simp add: tx_defs)

text \<open>
  C6. When BEGIN, every step and COMMIT are answered without an error and every step's
  result has a command tag, the statements sent are BEGIN, the steps in their order and
  COMMIT, and the call resolves with the result of the last step (with the export hook
  that \<^verbatim>\<open>query\<close> attaches); nothing is left unhandled. For the empty request there is no
  last step and the value is \<^verbatim>\<open>undefined\<close>.
\<close>

theorem transaction_commits_and_resolves_with_last:
  assumes a: "answers (client this) (sent w) (tx_statements queries bodies) =
                Inr b # map Inr rs @ [Inr c]"
    and t: "\<forall>res\<in>set rs. command res \<noteq> None"
  shows "sent (world_after (transaction this queries bodies w)) =
           sent w @ tx_statements queries bodies
    \<and> promise (transaction this queries bodies w) =
        Fulfilled (if queries = [] then None else Some (attach_to_excel (last rs)))
    \<and> unhandled (transaction this queries bodies w) = None"
proof -
  let ?qs = "map stmt_of (tx_query_args queries bodies)"
  let ?h1 = "sent w @ [(''BEGIN'', [])]"
  from a have b: "client this (sent w) (''BEGIN'', []) = Inr b"
    and rest: "answers (client this) ?h1 (?qs @ [(''COMMIT'', [])]) = map Inr rs @ [Inr c]"
    by (simp_all add: tx_statements_def)
  have len: "length rs = length ?qs"
    using arg_cong [OF rest, of length] by simp
  from rest len have mid: "answers (client this) ?h1 ?qs = map Inr rs"
    and c: "client this (?h1 @ ?qs) (''COMMIT'', []) = Inr c"
    by (simp_all add: answers_append)
  define w1 where "w1 = w\<lparr>sent := ?h1\<rparr>"
  have b': "client_query this ''BEGIN'' w = (Inr b, w1)"
    using b by (simp add: client_query_def dispatch_def w1_def)
  from mid have "answers (client this) (sent w1) ?qs = map Inr rs"
    by (simp add: w1_def)
  from tx_loop_ok [OF this t, of "length queries" None Pending] obtain w2 where
    l: "tx_loop this (length queries) (tx_query_args queries bodies) None w1 Pending =
          (Inr (if tx_query_args queries bodies = [] then None
                else Some (attach_to_excel (last rs))), w2, Pending)"
    and s2: "sent w2 = sent w1 @ ?qs"
    by blast
  have e: "(tx_query_args queries bodies = []) = (queries = [])"
    by (cases queries) (simp_all add: tx_query_args_def)
  have c': "client this (sent w2) (''COMMIT'', []) = Inr c"
    using c s2 by (simp add: w1_def)
  show ?thesis
    using b' l c' s2 e
    by (simp add: transaction_def tx_try_def client_query_def dispatch_def resolve_def
        tx_statements_def w1_def)
qed

theorem transaction_commits_and_resolves_with_last_witness:
  "sent (world_after (transaction (ninja [] True) [''INSERT INTO t VALUES (1)'', ''INSERT INTO t VALUES (2)''] [] w0)) =
     [(''BEGIN'', []), (''INSERT INTO t VALUES (1)'', [JUndefined]),
      (''INSERT INTO t VALUES (2)'', [JUndefined]), (''COMMIT'', [])]
   \<and> promise (transaction (ninja [] True) [''INSERT INTO t VALUES (1)'', ''INSERT INTO t VALUES (2)''] [] w0) =
       Fulfilled (Some \<lparr>command = Some ''SELECT'', rows = Some [2], rowCount = Some 1,
                        to_excel = True\<rparr>)"
proof -
  let ?ok = "\<lambda>k::nat. \<lparr>command = Some ''SELECT'', rows = Some [k], rowCount = Some 1,
                       to_excel = False\<rparr>"
  have a: "answers (client (ninja [] True)) (sent w0)
             (tx_statements [''INSERT INTO t VALUES (1)'', ''INSERT INTO t VALUES (2)''] []) =
           Inr (?ok 0) # map Inr [?ok 1, ?ok 2] @ [Inr (?ok 3)]"
    by (simp add: tx_statements_def stmt_of_def tx_defs)
  have t: "\<forall>res\<in>set [?ok 1, ?ok 2]. command res \<noteq> None"
    by simp
  show ?thesis
    using transaction_commits_and_resolves_with_last [OF a t]
    by (simp add: tx_statements_def stmt_of_def tx_query_args_def index_def attach_to_excel_def
        w0_def)
qed

text \<open>
  C9. For the empty list of queries, on a connection that answers BEGIN and COMMIT
  without an error, the call sends BEGIN and COMMIT and resolves with \<^verbatim>\<open>undefined\<close>
  (the variable \<^verbatim>\<open>r\<close> was never assigned).
\<close>

theorem transaction_empty_begins_commits_resolves_undefined:
  assumes "client this (sent w) (''BEGIN'', []) = Inr b"
    and "client this (sent w @ [(''BEGIN'', [])]) (''COMMIT'', []) = Inr c"
  shows "sent (world_after (transaction this [] bodies w)) =
           sent w @ [(''BEGIN'', []), (''COMMIT'', [])]
    \<and> promise (transaction this [] bodies w) = Fulfilled None"
  using assms
  by (simp add: transaction_def tx_try_def client_query_def dispatch_def resolve_def
      tx_query_args_def)

theorem transaction_empty_begins_commits_resolves_undefined_witness:
  "sent (world_after (transaction (ninja [] False) [] [JNum 1] w0)) =
     [(''BEGIN'', []), (''COMMIT'', [])]
   \<and> promise (transaction (ninja [] False) [] [JNum 1] w0) = Fulfilled None"
proof -
  have b: "client (ninja [] False) (sent w0) (''BEGIN'', []) =
             Inr \<lparr>command = Some ''SELECT'', rows = Some [0], rowCount = Some 1, to_excel = False\<rparr>"
    by (simp add: ninja_def scripted_def w0_def)
  have c: "client (ninja [] False) (sent w0 @ [(''BEGIN'', [])]) (''COMMIT'', []) =
             Inr \<lparr>command = Some ''SELECT'', rows = Some [1], rowCount = Some 1, to_excel = False\<rparr>"
    by (simp add: ninja_def scripted_def w0_def)
  show ?thesis
    using transaction_empty_begins_commits_resolves_undefined [OF b c, of "[JNum 1]"]
    by (simp add: w0_def)
qed

text \<open>
  C4. The claim: every exception thrown while the transaction runs, also one from BEGIN,
  COMMIT or ROLLBACK, is caught, a ROLLBACK is issued and the call rejects with the
  original error. The handler awaits its ROLLBACK before it calls \<^verbatim>\<open>reject\<close> and
  nothing guards that \<^verbatim>\<open>await\<close>: on a connection that refuses BEGIN and ROLLBACK, BEGIN
  throws, the handler sends ROLLBACK, that throws too, \<^verbatim>\<open>reject\<close> is never reached, the
  call stays pending and the second error is left unhandled. The same happens when the
  ROLLBACK inside the loop throws after the step \<open>A\<close> without a command tag: the handler
  sends ROLLBACK again, that throws again, and the call stays pending. The last run is
  the loop that does not stop: the step \<open>A\<close> without a command tag has rejected the call with
  "Transaction failed" before the step \<open>B\<close> throws, so the handler's \<^verbatim>\<open>reject\<close> changes
  nothing and the call does not reject with the error of \<open>B\<close>.
\<close>

theorem transaction_exception_not_always_rejected_with_it:
  "fst (tx_try (ninja [(''BEGIN'', Inl (Error ''no begin'')), (''ROLLBACK'', Inl (Error ''no rollback''))] True)
          [] [] w0 Pending) = Some (Error ''no begin'')
   \<and> sent (world_after (transaction (ninja [(''BEGIN'', Inl (Error ''no begin'')), (''ROLLBACK'', Inl (Error ''no rollback''))] True)
          [] [] w0)) = [(''BEGIN'', []), (''ROLLBACK'', [])]
   \<and> promise (transaction (ninja [(''BEGIN'', Inl (Error ''no begin'')), (''ROLLBACK'', Inl (Error ''no rollback''))] True)
          [] [] w0) = Pending
   \<and> unhandled (transaction (ninja [(''BEGIN'', Inl (Error ''no begin'')), (''ROLLBACK'', Inl (Error ''no rollback''))] True)
          [] [] w0) = Some (Error ''no rollback'')
   \<and> fst (tx_try (ninja [(''A'', tagless), (''ROLLBACK'', Inl (Error ''no rollback''))] True)
          [''A'', ''B''] [] w0 Pending) = Some (Error ''no rollback'')
   \<and> sent (world_after (transaction (ninja [(''A'', tagless), (''ROLLBACK'', Inl (Error ''no rollback''))] True)
          [''A'', ''B''] [] w0)) =
       [(''BEGIN'', []), (''A'', [JUndefined]), (''ROLLBACK'', []), (''ROLLBACK'', [])]
   \<and> promise (transaction (ninja [(''A'', tagless), (''ROLLBACK'', Inl (Error ''no rollback''))] True)
          [''A'', ''B''] [] w0) = Pending
   \<and> unhandled (transaction (ninja [(''A'', tagless), (''ROLLBACK'', Inl (Error ''no rollback''))] True)
          [''A'', ''B''] [] w0) = Some (Error ''no rollback'')
   \<and> fst (tx_try (ninja [(''A'', tagless), (''B'', Inl (Error ''boom''))] True)
          [''A'', ''B''] [] w0 Pending) = Some (Error ''boom'')
   \<and> promise (transaction (ninja [(''A'', tagless), (''B'', Inl (Error ''boom''))] True)
          [''A'', ''B''] [] w0) = Rejected (Error ''Transaction failed'')"
  by (simp add: tx_defs)

section \<open>multiquery: what the report holds\<close>

lemma dispatch_all_eq:
  "dispatch_all this qas w =
     (answers (client this) (sent w) (map stmt_of qas), w\<lparr>sent := sent w @ map stmt_of qas\<rparr>)"
  by (induction qas arbitrary: w) (simp_all add: dispatch_def stmt_of_def)

lemma length_mq_query_args [simp]: "length (mq_query_args qrs args) = length qrs"
  by (simp add: mq_query_args_def Let_def)

lemma item_settled_facts:
  assumes "item_settled this sv i qa a resp w = (out, resp1, w1)"
  shows "out = Inr ()"
    and "completed resp1 = completed resp + (if productive a then 1 else 0)"
    and "completed_of resp1 = completed_of resp"
    and "failed_query_list resp1 =
           (if productive a then failed_query_list resp else (failed_query_list resp)(i \<mapsto> qa))"
    and "error_list resp1 =
           (if productive a then error_list resp else (error_list resp)(i \<mapsto> error_of a))"
    and "success resp1 = (success resp \<and> \<not> isl a)"
    and "fatal_error resp1 = fatal_error resp"
    and "operation_time resp1 = operation_time resp"
    and "success_query_list resp1 =
           (if productive a \<and> truthy sv then (success_query_list resp)(i := rows (projr a))
            else success_query_list resp)"
    and "sent w1 = sent w"
    and "\<not> log this \<Longrightarrow> w1 = w"
  using assms
  by (auto simp: item_settled_def query_callback_def productive_def error_of_def Let_def send_log_def
      split: sum.splits if_splits)

lemma promise_all_snoc [simp]: "promise_all (outs @ [Inr ()]) = promise_all outs"
  by (induction outs rule: promise_all.induct) auto

lemma settle_all_outs:
  "settle_all this sv qas as ord outs resp w = (outs1, resp1, w1) \<Longrightarrow>
   promise_all outs1 = promise_all outs \<and> completed_of resp1 = completed_of resp
   \<and> fatal_error resp1 = fatal_error resp \<and> operation_time resp1 = operation_time resp
   \<and> sent w1 = sent w \<and> (\<not> log this \<longrightarrow> w1 = w)"
proof (induction ord arbitrary: outs resp w)
  case Nil
  then show ?case by simp
next
  case (Cons i ord)
  show ?case
  proof (cases "i < length qas \<and> i < length as")
    case True
    obtain out r2 w2 where it: "item_settled this sv i (qas ! i) (as ! i) resp w = (out, r2, w2)"
      by (cases "item_settled this sv i (qas ! i) (as ! i) resp w") auto
    with True Cons.prems have "settle_all this sv qas as ord (outs @ [out]) r2 w2 = (outs1, resp1, w1)"
      by simp
    from Cons.IH [OF this] item_settled_facts [OF it] show ?thesis by simp
  next
    case False
    with Cons show ?thesis by auto
  qed
qed

lemma settle_all_resp:
  assumes "length as = length qas"
  shows "settle_all this sv qas as ord outs resp w = (outs1, resp1, w1) \<Longrightarrow>
   completed resp1 = completed resp + length (filter (\<lambda>i. i < length qas \<and> productive (as ! i)) ord)
   \<and> failed_query_list resp1 =
       (\<lambda>j. if j \<in> set ord \<and> j < length qas \<and> \<not> productive (as ! j) then Some (qas ! j)
            else failed_query_list resp j)
   \<and> error_list resp1 =
       (\<lambda>j. if j \<in> set ord \<and> j < length qas \<and> \<not> productive (as ! j) then Some (error_of (as ! j))
            else error_list resp j)
   \<and> success resp1 = (success resp \<and> (\<forall>j\<in>set ord. j < length qas \<longrightarrow> \<not> isl (as ! j)))
   \<and> success_query_list resp1 =
       (\<lambda>j. if j \<in> set ord \<and> j < length qas \<and> productive (as ! j) \<and> truthy sv then rows (projr (as ! j))
            else success_query_list resp j)"
proof (induction ord arbitrary: outs resp w)
  case Nil
  then show ?case by simp
next
  case (Cons i ord)
  show ?case
  proof (cases "i < length qas")
    case True
    obtain out r2 w2 where it: "item_settled this sv i (qas ! i) (as ! i) resp w = (out, r2, w2)"
      by (cases "item_settled this sv i (qas ! i) (as ! i) resp w") auto
    with True Cons.prems assms
    have "settle_all this sv qas as ord (outs @ [out]) r2 w2 = (outs1, resp1, w1)"
      by simp
    from Cons.IH [OF this] item_settled_facts [OF it] True show ?thesis
      by (auto simp: fun_eq_iff)
  next
    case False
    with Cons assms show ?thesis by (auto simp: fun_eq_iff)
  qed
qed

lemma settle_order_set:
  assumes "settle_order n ord"
  shows "set ord = {..<n}" and "distinct ord"
proof -
  have "set ord = set (sort ord)" by simp
  also have "\<dots> = {..<n}" using assms by (simp add: settle_order_def atLeast0LessThan)
  finally show "set ord = {..<n}" .
  have "distinct (sort ord)" using assms by (simp add: settle_order_def)
  then show "distinct ord" by simp
qed

lemma multiquery_report:
  fixes this :: "'r pg_ninja" and qrs args w
  defines "qas \<equiv> mq_query_args qrs args"
  defines "as \<equiv> answers (client this) (sent w) (map stmt_of qas)"
  shows "\<exists>r. promise (multiquery this qrs args ord t0 t1 w) = Fulfilled r
    \<and> completed r = length (filter (\<lambda>i. i < length qrs \<and> productive (as ! i)) ord)
    \<and> completed_of r = length qrs
    \<and> failed_query_list r =
        (\<lambda>j. if j \<in> set ord \<and> j < length qrs \<and> \<not> productive (as ! j) then Some (qas ! j) else None)
    \<and> error_list r =
        (\<lambda>j. if j \<in> set ord \<and> j < length qrs \<and> \<not> productive (as ! j) then Some (error_of (as ! j))
             else None)
    \<and> success r = (\<forall>j\<in>set ord. j < length qrs \<longrightarrow> \<not> isl (as ! j))
    \<and> success_query_list r =
        (\<lambda>j. if j \<in> set ord \<and> j < length qrs \<and> productive (as ! j) \<and> truthy (save_success args)
             then rows (projr (as ! j)) else None)
    \<and> fatal_error r = None
    \<and> operation_time r = t1 - t0"
    and "sent (world_after (multiquery this qrs args ord t0 t1 w)) = sent w @ map stmt_of qas"
    and "unhandled (multiquery this qrs args ord t0 t1 w) = None"
    and "\<not> log this \<Longrightarrow> console (world_after (multiquery this qrs args ord t0 t1 w)) = console w"
proof -
  let ?resp0 = "\<lparr>completed = 0, completed_of = length qrs, success_query_list = Map.empty,
                  failed_query_list = Map.empty, error_list = Map.empty, fatal_error = None,
                  operation_time = 0, success = True\<rparr> :: 'r resp"
  let ?w1 = "w\<lparr>sent := sent w @ map stmt_of qas\<rparr>"
  obtain outs resp1 w2 where
    s: "settle_all this (save_success args) qas as ord [] ?resp0 ?w1 = (outs, resp1, w2)"
    by (cases "settle_all this (save_success args) qas as ord [] ?resp0 ?w1") auto
  have m: "multiquery this qrs args ord t0 t1 w = mq_join this (length qrs) outs t0 t1 resp1 w2"
    using s by (simp add: multiquery_def Let_def dispatch_all_eq qas_def as_def)
  have len: "length as = length qas" "length qas = length qrs"
    by (simp_all add: as_def qas_def)
  from settle_all_outs [OF s] have o: "promise_all outs = Inr ()"
    and f: "completed_of resp1 = length qrs" "fatal_error resp1 = None"
    and w: "sent w2 = sent w @ map stmt_of qas" "\<not> log this \<longrightarrow> w2 = ?w1"
    by simp_all
  note r = settle_all_resp [OF len(1) s]
  show "\<exists>r. promise (multiquery this qrs args ord t0 t1 w) = Fulfilled r
    \<and> completed r = length (filter (\<lambda>i. i < length qrs \<and> productive (as ! i)) ord)
    \<and> completed_of r = length qrs
    \<and> failed_query_list r =
        (\<lambda>j. if j \<in> set ord \<and> j < length qrs \<and> \<not> productive (as ! j) then Some (qas ! j) else None)
    \<and> error_list r =
        (\<lambda>j. if j \<in> set ord \<and> j < length qrs \<and> \<not> productive (as ! j) then Some (error_of (as ! j))
             else None)
    \<and> success r = (\<forall>j\<in>set ord. j < length qrs \<longrightarrow> \<not> isl (as ! j))
    \<and> success_query_list r =
        (\<lambda>j. if j \<in> set ord \<and> j < length qrs \<and> productive (as ! j) \<and> truthy (save_success args)
             then rows (projr (as ! j)) else None)
    \<and> fatal_error r = None
    \<and> operation_time r = t1 - t0"
    using m o f r len(2) by (simp add: mq_join_def resolve_def cong: if_cong)
  show "sent (world_after (multiquery this qrs args ord t0 t1 w)) = sent w @ map stmt_of qas"
    using m o w by (simp add: mq_join_def)
  show "unhandled (multiquery this qrs args ord t0 t1 w) = None"
    using m o by (simp add: mq_join_def)
  show "console (world_after (multiquery this qrs args ord t0 t1 w)) = console w" if "\<not> log this"
    using m o w that by (simp add: mq_join_def send_log_def)
qed

lemmas mq_defs =
  multiquery_def save_success_def mq_query_args_def at_last_def index_def dispatch_def
  item_settled_def query_callback_def attach_to_excel_def send_log_def mq_join_def resolve_def
  ninja_def scripted_def no_rows_def w0_def report_def Let_def

lemma multiquery_log_free:
  "promise (multiquery (this\<lparr>log := a\<rparr>) qrs args ord t0 t1 w) =
   promise (multiquery this qrs args ord t0 t1 w)"
  using multiquery_report(1) [of "this\<lparr>log := a\<rparr>" qrs args ord t0 t1 w]
    multiquery_report(1) [of this qrs args ord t0 t1 w]
  by (elim exE conjE) (auto intro!: resp.equality)


section \<open>multiquery: the claims\<close>

text \<open>
  C2. The claim: \<open>success\<close> is true exactly when \<open>error_list\<close> is empty and
  \<open>fatal_error\<close> is absent, and a batch of three queries whose second returns no rows
  has \<open>completed = 2\<close>, index 1 in \<open>failed_query_list\<close> and \<open>success = false\<close>. On that
  batch the code counts 2 completed and records index 1 in \<open>failed_query_list\<close> and in
  \<open>error_list\<close>, but \<open>success\<close> stays true: only the handler of a thrown error sets it
  to false, the branch for a result without rows does not.
\<close>

theorem multiquery_zero_rows_keeps_success_true:
  "map_option completed (report scenario3) = Some 2
   \<and> map_option (\<lambda>r. failed_query_list r 1) (report scenario3) = Some (Some (''Q2'', JArr []))
   \<and> map_option (\<lambda>r. error_list r 1) (report scenario3) = Some (Some (Error ''Query returned no rows''))
   \<and> map_option fatal_error (report scenario3) = Some None
   \<and> map_option success (report scenario3) = Some True"
  by (simp add: scenario3_def mq_defs)

text \<open>
  C3. When every answer is handled once, the call resolves with a report in which
  \<open>completed\<close> plus the number of entries of \<open>failed_query_list\<close> is \<open>completed_of\<close>,
  the number of queries submitted, whatever the driver answers and in whatever order the
  answers are handled.
\<close>

theorem multiquery_completed_plus_failed_is_total:
  assumes "settle_order (length qrs) ord"
  shows "\<exists>r. promise (multiquery this qrs args ord t0 t1 w) = Fulfilled r
    \<and> completed r + card (dom (failed_query_list r)) = completed_of r
    \<and> completed_of r = length qrs"
proof -
  let ?as = "answers (client this) (sent w) (map stmt_of (mq_query_args qrs args))"
  let ?P = "\<lambda>i. productive (?as ! i)"
  note so = settle_order_set [OF assms]
  from multiquery_report(1) [of this qrs args ord t0 t1 w] obtain r where
    p: "promise (multiquery this qrs args ord t0 t1 w) = Fulfilled r"
    and c: "completed r = length (filter (\<lambda>i. i < length qrs \<and> ?P i) ord)"
    and n: "completed_of r = length qrs"
    and f: "failed_query_list r =
        (\<lambda>j. if j \<in> set ord \<and> j < length qrs \<and> \<not> ?P j
             then Some (mq_query_args qrs args ! j) else None)"
    by blast
  have c': "completed r = card {i. i < length qrs \<and> ?P i}"
    using c so by (simp add: distinct_length_filter) (rule arg_cong [of _ _ card], auto)
  have d: "dom (failed_query_list r) = {i. i < length qrs \<and> \<not> ?P i}"
    using f so by (auto simp: dom_def)
  have "card {i. i < length qrs \<and> ?P i} + card {i. i < length qrs \<and> \<not> ?P i} =
        card ({i. i < length qrs \<and> ?P i} \<union> {i. i < length qrs \<and> \<not> ?P i})"
    by (rule card_Un_disjoint [symmetric]) auto
  also have "{i. i < length qrs \<and> ?P i} \<union> {i. i < length qrs \<and> \<not> ?P i} = {..<length qrs}"
    by auto
  finally show ?thesis using p c' d n by simp
qed


theorem multiquery_completed_plus_failed_is_total_witness:
  "\<exists>r. promise (multiquery (ninja [(''Q2'', no_rows), (''Q3'', Inl (Error ''boom''))] True)
                  [(''Q1'', JArr []), (''Q2'', JArr []), (''Q3'', JArr [])] [] [2, 0, 1] 5 9 w0) =
          Fulfilled r
       \<and> completed r + card (dom (failed_query_list r)) = completed_of r
       \<and> completed_of r = 3"
proof -
  have o: "settle_order (length [(''Q1'', JArr []), (''Q2'', JArr []), (''Q3'', JArr [])]) [2, 0, 1]"
    by (simp add: settle_order_def upt_rec)
  show ?thesis
    using multiquery_completed_plus_failed_is_total
      [OF o, of "ninja [(''Q2'', no_rows), (''Q3'', Inl (Error ''boom''))] True" "[]" 5 9 w0]
    by (simp add: numeral_3_eq_3)
qed



text \<open>
  C8. The result of \<^verbatim>\<open>query\<close>, the report of \<^verbatim>\<open>multiquery\<close> and the statements
  handed to the driver are the same for any two values of the \<^verbatim>\<open>#log\<close> flag, all else
  equal; with the flag off nothing is printed.
\<close>

theorem log_flag_noninterference:
  "fst (query (this\<lparr>log := a\<rparr>) q qargs w) = fst (query (this\<lparr>log := b\<rparr>) q qargs w)
   \<and> sent (snd (query (this\<lparr>log := a\<rparr>) q qargs w)) = sent (snd (query (this\<lparr>log := b\<rparr>) q qargs w))
   \<and> console (snd (query (this\<lparr>log := False\<rparr>) q qargs w)) = console w
   \<and> promise (multiquery (this\<lparr>log := a\<rparr>) qrs args ord t0 t1 w) =
       promise (multiquery (this\<lparr>log := b\<rparr>) qrs args ord t0 t1 w)
   \<and> sent (world_after (multiquery (this\<lparr>log := a\<rparr>) qrs args ord t0 t1 w)) =
       sent (world_after (multiquery (this\<lparr>log := b\<rparr>) qrs args ord t0 t1 w))
   \<and> console (world_after (multiquery (this\<lparr>log := False\<rparr>) qrs args ord t0 t1 w)) = console w"
proof -
  have q: "fst (query (this\<lparr>log := a\<rparr>) q qargs w) = fst (query (this\<lparr>log := b\<rparr>) q qargs w)"
    "sent (snd (query (this\<lparr>log := a\<rparr>) q qargs w)) = sent (snd (query (this\<lparr>log := b\<rparr>) q qargs w))"
    "console (snd (query (this\<lparr>log := False\<rparr>) q qargs w)) = console w"
    by (simp_all add: query_def dispatch_def query_callback_def send_log_def split: sum.splits)
  have p: "promise (multiquery (this\<lparr>log := a\<rparr>) qrs args ord t0 t1 w) =
       promise (multiquery (this\<lparr>log := b\<rparr>) qrs args ord t0 t1 w)"
    by (simp add: multiquery_log_free)
  have s: "sent (world_after (multiquery (this\<lparr>log := a\<rparr>) qrs args ord t0 t1 w)) =
       sent (world_after (multiquery (this\<lparr>log := b\<rparr>) qrs args ord t0 t1 w))"
    by (simp add: multiquery_report(2))
  have c: "console (world_after (multiquery (this\<lparr>log := False\<rparr>) qrs args ord t0 t1 w)) = console w"
    by (simp add: multiquery_report(4))
  from q p s c show ?thesis by blast
qed



text \<open>
  C5. When every answer is handled once, the call resolves with the report, whose
  \<open>fatal_error\<close> is absent, and leaves nothing unhandled, for every driver and every
  list of queries and trailing arguments. The executor of the returned promise never
  rejects, whatever the items' promises are; when joining them throws \<open>e\<close>, it resolves
  with the report in which \<open>fatal_error\<close> is \<open>e\<close> and \<open>success\<close> is false.
\<close>

theorem multiquery_never_rejects:
  assumes "settle_order (length qrs) ord"
  shows "(\<exists>r. promise (multiquery this qrs args ord t0 t1 w) = Fulfilled r \<and> fatal_error r = None)
    \<and> unhandled (multiquery this qrs args ord t0 t1 w) = None
    \<and> (\<exists>r. promise (mq_join this n outs t0 t1 resp w) = Fulfilled r)
    \<and> (promise_all outs = Inl e \<longrightarrow>
         promise (mq_join this n outs t0 t1 resp w) =
           Fulfilled (resp\<lparr>fatal_error := Some e, success := False\<rparr>))"
proof -
  have 1: "\<exists>r. promise (multiquery this qrs args ord t0 t1 w) = Fulfilled r \<and> fatal_error r = None"
    using multiquery_report(1) [of this qrs args ord t0 t1 w] by blast
  have 2: "unhandled (multiquery this qrs args ord t0 t1 w) = None"
    by (rule multiquery_report(3))
  have 3: "\<exists>r. promise (mq_join this n outs t0 t1 resp w) = Fulfilled r"
    by (cases "promise_all outs") (simp_all add: mq_join_def resolve_def)
  have 4: "promise_all outs = Inl e \<longrightarrow>
        promise (mq_join this n outs t0 t1 resp w) =
          Fulfilled (resp\<lparr>fatal_error := Some e, success := False\<rparr>)"
    by (simp add: mq_join_def resolve_def)
  from 1 2 3 4 show ?thesis by blast
qed

theorem multiquery_never_rejects_witness:
  "(\<exists>r. promise (multiquery (ninja [(''Q2'', Inl (Error ''boom''))] True)
                   [(''Q1'', JArr []), (''Q2'', JArr [])] [] [1, 0] 0 1 w0) = Fulfilled r
        \<and> fatal_error r = None)
   \<and> promise (mq_join (ninja [(''Q2'', Inl (Error ''boom''))] True) 1
         [Inr (), Inl (Error ''join'')] 0 1
         \<lparr>completed = 0, completed_of = 1, success_query_list = Map.empty,
          failed_query_list = Map.empty, error_list = Map.empty, fatal_error = None,
          operation_time = 0, success = True\<rparr> w0) =
       Fulfilled
         \<lparr>completed = 0, completed_of = 1, success_query_list = Map.empty,
          failed_query_list = Map.empty, error_list = Map.empty,
          fatal_error = Some (Error ''join''), operation_time = 0, success = False\<rparr>"
proof -
  let ?nj = "ninja [(''Q2'', Inl (Error ''boom''))] True"
  let ?qrs = "[(''Q1'', JArr []), (''Q2'', JArr [])]"
  let ?resp = "\<lparr>completed = 0, completed_of = 1, success_query_list = Map.empty,
          failed_query_list = Map.empty, error_list = Map.empty, fatal_error = None,
          operation_time = 0, success = True\<rparr> :: nat resp"
  have o: "settle_order (length ?qrs) [1, 0]"
    by (simp add: settle_order_def upt_rec)
  have j: "promise_all [Inr (), Inl (Error ''join'')] = Inl (Error ''join'')"
    by simp
  note th = multiquery_never_rejects
    [OF o, of ?nj "[]" 0 1 w0 1 "[Inr (), Inl (Error ''join'')]" ?resp "Error ''join''"]
  from th have 1: "\<exists>r. promise (multiquery ?nj ?qrs [] [1, 0] 0 1 w0) = Fulfilled r
      \<and> fatal_error r = None"
    by (rule conjunct1)
  from th j have "promise (mq_join ?nj 1 [Inr (), Inl (Error ''join'')] 0 1 ?resp w0) =
      Fulfilled (?resp\<lparr>fatal_error := Some (Error ''join''), success := False\<rparr>)"
    by blast
  then have 2: "promise (mq_join ?nj 1 [Inr (), Inl (Error ''join'')] 0 1 ?resp w0) =
      Fulfilled
         \<lparr>completed = 0, completed_of = 1, success_query_list = Map.empty,
          failed_query_list = Map.empty, error_list = Map.empty,
          fatal_error = Some (Error ''join''), operation_time = 0, success = False\<rparr>"
    by simp
  from 1 2 show ?thesis by blast
qed

end
